theory Spec2Isabelle
  imports Complex_Main
begin

section \<open>Dead-reckoning node of a differential-drive robot\<close>

text \<open>
  The development embeds \<^verbatim>\<open>control/localization.py\<close>. The kinematic formulas of the
  timer callback are kept over the real numbers. The angle wrapping, where the range of
  the heading is decided by the last bit, carries the rounding of IEEE binary64
  arithmetic.
\<close>

subsection \<open>Binary64 rounding\<close>

text \<open>
  Round to nearest, ties to even, with 53 significant bits: the result of every
  \<^verbatim>\<open>+\<close> and \<^verbatim>\<open>-\<close> on Python floats, for magnitudes in the normal range
  (no overflow, no subnormal result, no NaN). \<open>pow2 e\<close> is \<open>2\<close> to the integer power
  \<open>e\<close>; the unit in the last place of \<open>v\<close> is \<open>pow2 (e - 52)\<close> for the binary exponent
  \<open>e\<close> of \<open>v\<close>.
\<close>

definition pow2 :: "int \<Rightarrow> real" where
  "pow2 e = (if 0 \<le> e then 2 ^ nat e else 1 / 2 ^ nat (- e))"

definition round_even :: "real \<Rightarrow> int" where
  "round_even r =
     (let f = \<lfloor>r\<rfloor>; d = r - of_int f
      in if d < 1 / 2 then f else if 1 / 2 < d then f + 1 else if even f then f else f + 1)"

definition float64 :: "real \<Rightarrow> real" where
  "float64 v =
     (if v = 0 then 0
      else (let e = \<lfloor>log 2 \<bar>v\<bar>\<rfloor>; u = pow2 (e - 52)
            in u * of_int (round_even (v / u))))"

text \<open>
  \<^verbatim>\<open>math.pi\<close>, the binary64 number nearest to \<open>\<pi>\<close>, and the binary64 number just
  below \<^verbatim>\<open>-math.pi\<close>. The program knows no other \<open>\<pi>\<close>: where the properties
  below speak of \<open>\<pi>\<close>, they mean \<^verbatim>\<open>math.pi\<close>.
\<close>

definition math_pi :: real where
  "math_pi = 884279719003555 / 281474976710656"

definition below_minus_pi :: real where
  "below_minus_pi = - (7074237752028441 / 2251799813685248)"

subsection \<open>Angle wrapping\<close>

text \<open>
  \<^verbatim>\<open>np.fmod\<close> is the C library remainder: the quotient is truncated toward zero, so
  the result carries the sign of the dividend, and it is exact. The source calls it with
  the divisor \<^verbatim>\<open>2.0 * math.pi\<close> only. In \<^verbatim>\<open>wrap_to_pi\<close> the two sums and the
  difference round.
\<close>

definition trunc :: "real \<Rightarrow> int" where
  "trunc a = (if 0 \<le> a then \<lfloor>a\<rfloor> else \<lceil>a\<rceil>)"

definition fmod :: "real \<Rightarrow> real \<Rightarrow> real" where
  "fmod a b = a - b * of_int (trunc (a / b))"

definition wrap_to_pi :: "real \<Rightarrow> real" where
  "wrap_to_pi th =
     (let result = fmod (float64 (th + math_pi)) (float64 (2.0 * math_pi));
          result = (if result < 0 then float64 (result + float64 (2.0 * math_pi)) else result)
      in float64 (result - math_pi))"

subsection \<open>Messages\<close>

text \<open>
  The ROS message classes. A freshly constructed message has empty strings and zero
  numbers, but for the \<open>w\<close> of a quaternion, which is one; the covariance arrays, which
  the node never writes, are left out. A time stamp stands for the value of \<^verbatim>\<open>seconds\<close> from which
  \<^verbatim>\<open>rclpy.time.Time(seconds=...).to_msg()\<close> builds it.
\<close>

record vector3 =
  vx :: real
  vy :: real
  vz :: real

record quaternion =
  qx :: real
  qy :: real
  qz :: real
  qw :: real

record odometry =
  odom_stamp :: real
  odom_frame_id :: string
  odom_child_frame_id :: string
  pose_position :: vector3
  pose_orientation :: quaternion
  twist_linear :: vector3
  twist_angular :: vector3

record transform_stamped =
  tf_stamp :: real
  tf_frame_id :: string
  tf_child_frame_id :: string
  translation :: vector3
  rotation :: quaternion

definition Vector3 :: vector3 where
  "Vector3 = \<lparr>vx = 0, vy = 0, vz = 0\<rparr>"

definition Odometry :: odometry where
  "Odometry = \<lparr>odom_stamp = 0, odom_frame_id = [], odom_child_frame_id = [],
     pose_position = Vector3, pose_orientation = \<lparr>qx = 0, qy = 0, qz = 0, qw = 1\<rparr>,
     twist_linear = Vector3, twist_angular = Vector3\<rparr>"

definition TransformStamped :: transform_stamped where
  "TransformStamped = \<lparr>tf_stamp = 0, tf_frame_id = [], tf_child_frame_id = [],
     translation = Vector3, rotation = \<lparr>qx = 0, qy = 0, qz = 0, qw = 1\<rparr>\<rparr>"

text \<open>What one callback hands to the middleware, in the order of the calls.\<close>

datatype sent = Publish odometry | SendTransform transform_stamped

text \<open>
  Modelled from the spec: \<^verbatim>\<open>transforms3d.euler.euler2quat\<close> is not part of the
  repository's sources. The spec describes it as the standard yaw-pitch-roll conversion
  of (roll, pitch, yaw); the definition is that conversion for the library's default axes,
  the result being the array \<open>[w, x, y, z]\<close>.
\<close>

definition euler2quat :: "real \<Rightarrow> real \<Rightarrow> real \<Rightarrow> real list" where
  "euler2quat ai aj ak =
     (let ci = cos (ai / 2.0); si = sin (ai / 2.0);
          cj = cos (aj / 2.0); sj = sin (aj / 2.0);
          ck = cos (ak / 2.0); sk = sin (ak / 2.0);
          cc = ci * ck; cs = ci * sk; sc = si * ck; ss = si * sk
      in [cj * cc + sj * ss, cj * sc - sj * cs, cj * ss + sj * cc, cj * cs - sj * sc])"

subsection \<open>The node\<close>

text \<open>
  The fields of \<^verbatim>\<open>DeadReckoning\<close> that the callbacks read or write. The two
  simulation times are \<^verbatim>\<open>None\<close> until set.
\<close>

record dead_reckoning =
  wheel_base :: real
  wheel_radius :: real
  update_rate :: real
  integration_period :: real
  x :: real
  y :: real
  theta :: real
  omega_r :: real
  omega_l :: real
  sim_time :: "real option"
  last_sim_time :: "real option"

datatype py_error = ZeroDivisionError

text \<open>
  \<^verbatim>\<open>__init__\<close>, given the four parameter values the node reads. The timer period
  \<^verbatim>\<open>1.0 / self.update_rate\<close> is a Python float division, which raises on a zero
  divisor.
\<close>

definition init :: "real \<Rightarrow> real \<Rightarrow> real \<Rightarrow> real \<Rightarrow> py_error + dead_reckoning" where
  "init wb wr ur ip =
     (if ur = 0 then Inl ZeroDivisionError
      else Inr \<lparr>wheel_base = wb, wheel_radius = wr, update_rate = ur,
                 integration_period = ip,
                 x = 0.0, y = 0.0, theta = 0.0, omega_r = 0.0, omega_l = 0.0,
                 sim_time = None, last_sim_time = None\<rparr>)"

text \<open>The three subscription callbacks; the argument is \<^verbatim>\<open>msg.data\<close>.\<close>

definition right_wheel_callback :: "dead_reckoning \<Rightarrow> real \<Rightarrow> dead_reckoning" where
  "right_wheel_callback self d = self\<lparr>omega_r := d\<rparr>"

definition left_wheel_callback :: "dead_reckoning \<Rightarrow> real \<Rightarrow> dead_reckoning" where
  "left_wheel_callback self d = self\<lparr>omega_l := d\<rparr>"

definition sim_time_callback :: "dead_reckoning \<Rightarrow> real \<Rightarrow> dead_reckoning" where
  "sim_time_callback self d = self\<lparr>sim_time := Some d\<rparr>"

text \<open>
  The timer callback. It returns the node after the call and the messages handed out
  during it, or the exception that leaves it together with the node as the exception
  finds it: \<^verbatim>\<open>(v_r - v_l) / self.wheel_base\<close> raises when the wheel base is
  zero, after the baseline has been advanced and before the pose is touched. The log
  line at the end is not modelled.
\<close>

type_synonym outcome = "py_error \<times> dead_reckoning + dead_reckoning \<times> sent list"

definition update_odometry :: "dead_reckoning \<Rightarrow> outcome" where
  "update_odometry self =
     (case sim_time self of
        None \<Rightarrow> Inr (self, [])
      | Some now \<Rightarrow>
          (case last_sim_time self of
             None \<Rightarrow> Inr (self\<lparr>last_sim_time := Some now\<rparr>, [])
           | Some prev \<Rightarrow>
               (let dt = now - prev in
                if dt < integration_period self then Inr (self, [])
                else
                  (let self1 = self\<lparr>last_sim_time := Some now\<rparr>;
                       v_r = wheel_radius self1 * omega_r self1;
                       v_l = wheel_radius self1 * omega_l self1;
                       V = 0.5 * (v_r + v_l)
                   in if wheel_base self1 = 0 then Inl (ZeroDivisionError, self1)
                      else
                        (let Omega = (v_r - v_l) / wheel_base self1;
                             self2 = self1\<lparr>x := x self1 + V * cos (theta self1) * dt\<rparr>;
                             self3 = self2\<lparr>y := y self2 + V * sin (theta self2) * dt\<rparr>;
                             self4 = self3\<lparr>theta := wrap_to_pi (theta self3 + Omega * dt)\<rparr>;
                             quat = euler2quat 0.0 0.0 (theta self4);
                             orient = \<lparr>qx = quat ! 1, qy = quat ! 2, qz = quat ! 3, qw = quat ! 0\<rparr>;
                             odom_msg = Odometry
                               \<lparr>odom_stamp := now, odom_frame_id := ''odom'',
                                odom_child_frame_id := ''base_footprint'',
                                pose_position := \<lparr>vx = x self4, vy = y self4, vz = 0.0\<rparr>,
                                pose_orientation := orient,
                                twist_linear := Vector3\<lparr>vx := V\<rparr>,
                                twist_angular := Vector3\<lparr>vz := Omega\<rparr>\<rparr>;
                             t = TransformStamped
                               \<lparr>tf_stamp := now, tf_frame_id := ''odom'',
                                tf_child_frame_id := ''base_footprint'',
                                translation := \<lparr>vx = x self4, vy = y self4, vz = 0.0\<rparr>,
                                rotation := orient\<rparr>
                         in Inr (self4, [Publish odom_msg, SendTransform t]))))))"

text \<open>
  \<^verbatim>\<open>rclpy.spin\<close> runs the callbacks one at a time, in the order the samples and
  timer ticks arrive. An exception leaves the loop; \<^verbatim>\<open>main\<close> catches only the
  keyboard interrupt. The outcome of a run that ends so is the exception and the node
  as it was then.
\<close>

datatype event = RightWheel real | LeftWheel real | SimTime real | Timer

fun dispatch :: "dead_reckoning \<Rightarrow> event \<Rightarrow> outcome" where
  "dispatch self (RightWheel d) = Inr (right_wheel_callback self d, [])"
| "dispatch self (LeftWheel d) = Inr (left_wheel_callback self d, [])"
| "dispatch self (SimTime d) = Inr (sim_time_callback self d, [])"
| "dispatch self Timer = update_odometry self"

fun spin :: "dead_reckoning \<Rightarrow> event list \<Rightarrow> outcome" where
  "spin self [] = Inr (self, [])"
| "spin self (e # es) =
     (case dispatch self e of
        Inl r \<Rightarrow> Inl r
      | Inr (self', msgs) \<Rightarrow>
          (case spin self' es of
             Inl r \<Rightarrow> Inl r
           | Inr (self'', msgs') \<Rightarrow> Inr (self'', msgs @ msgs')))"

definition node_after :: "outcome \<Rightarrow> dead_reckoning" where
  "node_after r = (case r of Inl (e, self) \<Rightarrow> self | Inr (self, msgs) \<Rightarrow> self)"

text \<open>
  The clock gate as the specification words it, for comparison with the timer callback:
  from the current time, the baseline and the minimum period to the new baseline and
  the signal.
\<close>

datatype gate = NotReady | Ready real

definition spec_clock_gate :: "real option \<Rightarrow> real option \<Rightarrow> real \<Rightarrow> real option \<times> gate" where
  "spec_clock_gate current_time previous_time min_integration_period =
     (case current_time of
        None \<Rightarrow> (previous_time, NotReady)
      | Some c \<Rightarrow>
          (case previous_time of
             None \<Rightarrow> (Some c, NotReady)
           | Some p \<Rightarrow>
               if c - p < min_integration_period then (Some p, NotReady)
               else (Some c, Ready (c - p))))"

text \<open>A node in the middle of a run, used to evaluate the callbacks on concrete data.\<close>

definition demo :: dead_reckoning where
  "demo = \<lparr>wheel_base = 1, wheel_radius = 1, update_rate = 40, integration_period = 1 / 100,
            x = 0, y = 0, theta = 0, omega_r = 1, omega_l = 1,
            sim_time = Some 2, last_sim_time = Some 1\<rparr>"

text \<open>
  Two nodes as \<^verbatim>\<open>__init__\<close> leaves them: one with wheel radius \<^verbatim>\<open>math.pi\<close>,
  one with the next binary64 number above it.
\<close>

definition fresh :: dead_reckoning where
  "fresh = \<lparr>wheel_base = 1, wheel_radius = math_pi, update_rate = 40,
             integration_period = 1 / 100,
             x = 0, y = 0, theta = 0, omega_r = 0, omega_l = 0,
             sim_time = None, last_sim_time = None\<rparr>"

definition wide :: dead_reckoning where
  "wide = \<lparr>wheel_base = 1, wheel_radius = - below_minus_pi, update_rate = 40,
            integration_period = 1 / 100,
            x = 0, y = 0, theta = 0, omega_r = 0, omega_l = 0,
            sim_time = None, last_sim_time = None\<rparr>"

text \<open>
  The node \<open>wide\<close> after its right wheel has turned backwards at 1 rad/s for one second
  and stopped, and the next clock sample has arrived.
\<close>

definition turned :: dead_reckoning where
  "turned = \<lparr>wheel_base = 1, wheel_radius = - below_minus_pi, update_rate = 40,
              integration_period = 1 / 100,
              x = below_minus_pi / 2, y = 0, theta = math_pi, omega_r = 0, omega_l = 0,
              sim_time = Some 2, last_sim_time = Some 1\<rparr>"

text \<open>
  A run of clock samples, each followed by one timer tick, and the condition under which
  every one of those ticks finds at least the integration period elapsed since the
  baseline the previous one left.
\<close>

fun ticks :: "real list \<Rightarrow> event list" where
  "ticks [] = []"
| "ticks (t # ts) = SimTime t # Timer # ticks ts"

fun ready_chain :: "real \<Rightarrow> real \<Rightarrow> real list \<Rightarrow> bool" where
  "ready_chain prev period [] = True"
| "ready_chain prev period (t # ts) = (period \<le> t - prev \<and> ready_chain t period ts)"

section \<open>Properties\<close>

subsection \<open>Rounding\<close>

lemma pow2_powr: "pow2 e = 2 powr (of_int e)"
proof (cases "0 \<le> e")
  case True
  then have "2 powr (of_int e) = (2::real) powr (real (nat e))" by simp
  also have "\<dots> = 2 ^ nat e" by (rule powr_realpow) simp
  finally show ?thesis using True by (simp add: pow2_def)
next
  case False
  then have "of_int e = - real (nat (- e))" by simp
  then have "2 powr (of_int e) = inverse ((2::real) powr (real (nat (- e))))"
    by (simp only: powr_minus)
  also have "\<dots> = inverse (2 ^ nat (- e))" by (simp only: powr_realpow [of 2, simplified])
  finally show ?thesis using False by (simp add: pow2_def inverse_eq_divide)
qed

lemma pow2_pos: "0 < pow2 e"
  by (simp add: pow2_powr)

lemma pow2_add: "pow2 (a + b) = pow2 a * pow2 b"
  by (simp add: pow2_powr powr_add)

lemma pow2_mono: "a \<le> b \<Longrightarrow> pow2 a \<le> pow2 b"
  by (simp add: pow2_powr)

lemma pow2_int: "0 \<le> e \<Longrightarrow> pow2 e = of_int (2 ^ nat e)"
  by (simp add: pow2_def)

lemma exponent_bounds:
  assumes "v \<noteq> 0"
  shows "pow2 \<lfloor>log 2 \<bar>v\<bar>\<rfloor> \<le> \<bar>v\<bar> \<and> \<bar>v\<bar> < pow2 (\<lfloor>log 2 \<bar>v\<bar>\<rfloor> + 1)"
proof -
  have "0 < \<bar>v\<bar>" using assms by simp
  then have "2 powr (of_int \<lfloor>log 2 \<bar>v\<bar>\<rfloor>) \<le> \<bar>v\<bar> \<and> \<bar>v\<bar> < 2 powr (of_int (\<lfloor>log 2 \<bar>v\<bar>\<rfloor> + 1))"
    using floor_log_eq_powr_iff [of "\<bar>v\<bar>" 2 "\<lfloor>log 2 \<bar>v\<bar>\<rfloor>"] by simp
  then show ?thesis by (simp only: pow2_powr)
qed

lemma exponent_unique:
  assumes "pow2 k \<le> \<bar>v\<bar>" and "\<bar>v\<bar> < pow2 (k + 1)"
  shows "\<lfloor>log 2 \<bar>v\<bar>\<rfloor> = k"
proof -
  have "0 < \<bar>v\<bar>" using assms(1) pow2_pos [of k] by linarith
  then show ?thesis
    using assms floor_log_eq_powr_iff [of "\<bar>v\<bar>" 2 k] by (simp add: pow2_powr)
qed

lemma round_even_of_int: "round_even (of_int j) = j"
  by (simp add: round_even_def)

lemma round_even_le: "r \<le> of_int j \<Longrightarrow> round_even r \<le> j"
proof -
  assume le: "r \<le> of_int j"
  have f: "\<lfloor>r\<rfloor> \<le> j" using le by (simp add: floor_le_iff) 
  show ?thesis
  proof (cases "r = of_int \<lfloor>r\<rfloor>")
    case True
    then have "round_even r = \<lfloor>r\<rfloor>" by (simp add: round_even_def)
    then show ?thesis using f by simp
  next
    case False
    then have "of_int \<lfloor>r\<rfloor> < r" using of_int_floor_le [of r] by linarith
    then have "of_int \<lfloor>r\<rfloor> < (of_int j :: real)" using le by linarith
    then have "\<lfloor>r\<rfloor> + 1 \<le> j" by simp
    then show ?thesis using f by (simp add: round_even_def Let_def)
  qed
qed

lemma round_even_ge: "of_int j \<le> r \<Longrightarrow> j \<le> round_even r"
proof -
  assume "of_int j \<le> r"
  then have "j \<le> \<lfloor>r\<rfloor>" by (simp add: le_floor_iff)
  then show ?thesis by (simp add: round_even_def Let_def)
qed

lemma round_even_err: "\<bar>of_int (round_even r) - r\<bar> \<le> 1 / 2"
proof -
  have "of_int \<lfloor>r\<rfloor> \<le> r" "r < of_int \<lfloor>r\<rfloor> + 1" by linarith+
  then show ?thesis by (simp add: round_even_def Let_def)
qed


lemma float64_eval:
  assumes "pow2 k \<le> \<bar>v\<bar>" and "\<bar>v\<bar> < pow2 (k + 1)"
  shows "float64 v = pow2 (k - 52) * of_int (round_even (v / pow2 (k - 52)))"
proof -
  have "v \<noteq> 0" using assms(1) pow2_pos [of k] by auto
  then show ?thesis using exponent_unique [OF assms] by (simp add: float64_def Let_def)
qed

lemma float64_multiple:
  assumes "v \<noteq> 0" and "B = of_int m * pow2 k" and "\<bar>v\<bar> \<le> B" and "B < pow2 (k + 53)"
  shows "\<exists>j::int. B = pow2 (\<lfloor>log 2 \<bar>v\<bar>\<rfloor> - 52) * of_int j"
proof -
  let ?e = "\<lfloor>log 2 \<bar>v\<bar>\<rfloor>"
  have "pow2 ?e \<le> \<bar>v\<bar>" using exponent_bounds [OF assms(1)] by simp
  then have "pow2 ?e < pow2 (k + 53)" using assms(3,4) by linarith
  then have "?e < k + 53" using pow2_mono [of "k + 53" ?e] by (cases "?e < k + 53") auto
  then have d: "0 \<le> k - (?e - 52)" by simp
  have "pow2 k = pow2 ((?e - 52) + (k - (?e - 52)))" by simp
  also have "\<dots> = pow2 (?e - 52) * pow2 (k - (?e - 52))" by (rule pow2_add)
  also have "\<dots> = pow2 (?e - 52) * of_int (2 ^ nat (k - (?e - 52)))"
    using d by (simp only: pow2_int)
  finally have "B = pow2 (?e - 52) * of_int (m * 2 ^ nat (k - (?e - 52)))"
    using assms(2) by simp
  then show ?thesis by blast
qed

lemma float64_abs_le:
  assumes "B = of_int m * pow2 k" and "\<bar>v\<bar> \<le> B" and "B < pow2 (k + 53)"
  shows "\<bar>float64 v\<bar> \<le> B"
proof (cases "v = 0")
  case True
  then show ?thesis using assms(2) by (simp add: float64_def)
next
  case False
  let ?u = "pow2 (\<lfloor>log 2 \<bar>v\<bar>\<rfloor> - 52)"
  obtain j :: int where j: "B = ?u * of_int j"
    using float64_multiple [OF False assms] by blast
  have u: "0 < ?u" by (rule pow2_pos)
  have fl: "float64 v = ?u * of_int (round_even (v / ?u))"
    using False by (simp add: float64_def Let_def)
  have "v \<le> ?u * of_int j" "- (?u * of_int j) \<le> v" using assms(2) j by linarith+
  then have "v / ?u \<le> of_int j" "of_int (- j) \<le> v / ?u"
    using u by (simp_all add: field_simps)
  then have "round_even (v / ?u) \<le> j" "- j \<le> round_even (v / ?u)"
    using round_even_le round_even_ge by blast+
  then have "\<bar>(of_int (round_even (v / ?u)) :: real)\<bar> \<le> of_int j" by linarith
  then have "?u * \<bar>(of_int (round_even (v / ?u)) :: real)\<bar> \<le> ?u * of_int j"
    using u by simp
  then show ?thesis using fl j u by (simp add: abs_mult)
qed

lemma float64_nonneg:
  assumes "0 \<le> v"
  shows "0 \<le> float64 v"
proof (cases "v = 0")
  case True
  then show ?thesis by (simp add: float64_def)
next
  case False
  let ?u = "pow2 (\<lfloor>log 2 \<bar>v\<bar>\<rfloor> - 52)"
  have u: "0 < ?u" by (rule pow2_pos)
  then have "of_int 0 \<le> v / ?u" using assms by simp
  then have "0 \<le> round_even (v / ?u)" by (rule round_even_ge)
  then show ?thesis using False u by (simp add: float64_def Let_def)
qed

lemma float64_exact:
  assumes "v = of_int m * pow2 k" and "\<bar>v\<bar> < pow2 (k + 53)"
  shows "float64 v = v"
proof (cases "v = 0")
  case True
  then show ?thesis by (simp add: float64_def)
next
  case False
  define u where "u = pow2 (\<lfloor>log 2 \<bar>v\<bar>\<rfloor> - 52)"
  have B: "\<bar>v\<bar> = of_int \<bar>m\<bar> * pow2 k"
    using assms(1) pow2_pos [of k] by (simp add: abs_mult)
  obtain j :: int where j: "\<bar>v\<bar> = u * of_int j"
    using float64_multiple [OF False B _ assms(2)] unfolding u_def by auto
  have u: "0 < u" unfolding u_def by (rule pow2_pos)
  have "\<exists>i::int. v = u * of_int i"
  proof (cases "0 \<le> v")
    case True
    then show ?thesis using j by auto
  next
    case False
    then have "v = u * of_int (- j)" using j by simp
    then show ?thesis by blast
  qed
  then obtain i :: int where i: "v = u * of_int i" by blast
  have "v / u = of_int i" using u by (simp add: i)
  then have "round_even (v / u) = i" by (simp only: round_even_of_int)
  then have "u * of_int (round_even (v / u)) = v" using i by simp
  then show ?thesis using False unfolding u_def by (simp add: float64_def Let_def)
qed

lemma float64_err: "\<bar>float64 v - v\<bar> \<le> \<bar>v\<bar> / 2 ^ 53"
proof (cases "v = 0")
  case True
  then show ?thesis by (simp add: float64_def)
next
  case False
  define e where "e = \<lfloor>log 2 \<bar>v\<bar>\<rfloor>"
  define u where "u = pow2 (e - 52)"
  define n where "n = round_even (v / u)"
  have u: "0 < u" unfolding u_def by (rule pow2_pos)
  have "\<bar>of_int n - v / u\<bar> \<le> 1 / 2" unfolding n_def by (rule round_even_err)
  then have "u * \<bar>of_int n - v / u\<bar> \<le> u * (1 / 2)"
    using u by (simp only: mult_le_cancel_left_pos)
  moreover have "u * \<bar>of_int n - v / u\<bar> = \<bar>u * (of_int n - v / u)\<bar>"
    using u by (simp add: abs_mult)
  moreover have "u * (of_int n - v / u) = u * of_int n - v"
    using u by (simp add: right_diff_distrib)
  ultimately have "\<bar>u * of_int n - v\<bar> \<le> u / 2" by simp
  moreover have "float64 v = u * of_int n"
    using False unfolding n_def u_def e_def by (simp add: float64_def Let_def)
  ultimately have err: "\<bar>float64 v - v\<bar> \<le> u / 2" by simp
  have "pow2 e = pow2 ((e - 52) + 52)" by simp
  also have "\<dots> = u * pow2 52" unfolding u_def by (rule pow2_add)
  finally have "u * 2 ^ 52 \<le> \<bar>v\<bar>"
    using exponent_bounds [OF False] unfolding e_def by (simp add: pow2_def)
  then show ?thesis using err by (simp add: field_simps)
qed


subsection \<open>The remainder and the wrapped angle\<close>

lemma fmod_nonneg:
  assumes "0 \<le> a" "0 < b"
  shows "0 \<le> fmod a b \<and> fmod a b < b"
proof -
  have q: "0 \<le> a / b" using assms by simp
  have lo: "of_int \<lfloor>a / b\<rfloor> * b \<le> a"
    using assms floor_divide_lower by blast
  have hi: "a < (of_int \<lfloor>a / b\<rfloor> + 1) * b"
    using assms floor_divide_upper by blast
  show ?thesis using q lo hi by (simp add: fmod_def trunc_def algebra_simps)
qed

lemma fmod_neg:
  assumes "a < 0" "0 < b"
  shows "- b < fmod a b \<and> fmod a b \<le> 0"
proof -
  have "a / b < 0" using assms by (simp add: divide_neg_pos)
  then have q: "\<not> 0 \<le> a / b" by simp
  have hi: "a \<le> of_int \<lceil>a / b\<rceil> * b"
    using assms ceiling_divide_upper by blast
  have lo: "(of_int \<lceil>a / b\<rceil> - 1) * b < a"
    using assms ceiling_divide_lower by blast
  show ?thesis using q lo hi by (simp add: fmod_def trunc_def algebra_simps)
qed

lemma fmod_multiple: "\<exists>k::int. fmod a b = a + b * of_int k"
proof
  show "fmod a b = a + b * of_int (- trunc (a / b))"
    by (simp add: fmod_def)
qed

lemma fmod_small: "0 \<le> a \<Longrightarrow> a < b \<Longrightarrow> fmod a b = a"
proof -
  assume a: "0 \<le> a" "a < b"
  then have "0 \<le> a / b" "a / b < 1" by simp_all
  then have "\<lfloor>a / b\<rfloor> = 0" by linarith
  then show ?thesis using \<open>0 \<le> a / b\<close> by (simp add: fmod_def trunc_def)
qed

lemma math_pi_pos: "0 < math_pi"
  by (simp add: math_pi_def)

lemma math_pi_repr: "math_pi = of_int 7074237752028440 * pow2 (- 51)" "math_pi < pow2 (- 51 + 53)"
  by (simp_all add: math_pi_def pow2_def)

lemma two_pi_repr:
  "2 * math_pi = of_int 7074237752028440 * pow2 (- 50)" "2 * math_pi < pow2 (- 50 + 53)"
  by (simp_all add: math_pi_def pow2_def)

lemma float64_two_pi: "float64 (2 * math_pi) = 2 * math_pi"
  using two_pi_repr math_pi_pos by (intro float64_exact [of _ 7074237752028440 "- 50"]) simp_all

lemma float64_math_pi: "float64 math_pi = math_pi" "float64 (- math_pi) = - math_pi"
proof -
  show "float64 math_pi = math_pi"
    using math_pi_repr math_pi_pos by (intro float64_exact [of _ 7074237752028440 "- 51"]) simp_all
  have "- math_pi = of_int (- 7074237752028440) * pow2 (- 51)"
    using math_pi_repr(1) by simp
  then show "float64 (- math_pi) = - math_pi"
    using math_pi_repr(2) math_pi_pos by (intro float64_exact [of _ "- 7074237752028440" "- 51"]) simp_all
qed

lemma wrap_to_pi_bounds: "- math_pi \<le> wrap_to_pi th \<and> wrap_to_pi th \<le> math_pi"
proof -
  define a where "a = float64 (th + math_pi)"
  define r where "r = fmod a (2 * math_pi)"
  define r' where "r' = (if r < 0 then float64 (r + 2 * math_pi) else r)"
  have w: "wrap_to_pi th = float64 (r' - math_pi)"
    by (simp add: wrap_to_pi_def Let_def float64_two_pi a_def r_def r'_def)
  have r: "- (2 * math_pi) < r \<and> r < 2 * math_pi"
    using fmod_nonneg [of a "2 * math_pi"] fmod_neg [of a "2 * math_pi"] math_pi_pos
    unfolding r_def by (cases "0 \<le> a") auto
  have "0 \<le> r' \<and> r' \<le> 2 * math_pi"
  proof (cases "r < 0")
    case True
    then have "\<bar>r + 2 * math_pi\<bar> \<le> 2 * math_pi" "0 \<le> r + 2 * math_pi" using r by simp_all
    then have "\<bar>float64 (r + 2 * math_pi)\<bar> \<le> 2 * math_pi" "0 \<le> float64 (r + 2 * math_pi)"
      using float64_abs_le [OF two_pi_repr(1) _ two_pi_repr(2)] float64_nonneg by blast+
    then show ?thesis using True by (simp add: r'_def)
  next
    case False
    then show ?thesis using r by (simp add: r'_def)
  qed
  then have "\<bar>r' - math_pi\<bar> \<le> math_pi" by (simp add: abs_le_iff)
  then have "\<bar>float64 (r' - math_pi)\<bar> \<le> math_pi"
    using float64_abs_le [OF math_pi_repr(1) _ math_pi_repr(2)] by blast
  then show ?thesis using w by (simp add: abs_le_iff)
qed

lemma wrap_to_pi_steps:
  assumes "float64 (th + math_pi) = a"
    and "fmod a (2 * math_pi) = r"
    and "(if r < 0 then float64 (r + 2 * math_pi) else r) = r'"
    and "float64 (r' - math_pi) = w"
  shows "wrap_to_pi th = w"
  using assms by (auto simp add: wrap_to_pi_def Let_def float64_two_pi split: if_splits)

lemma wrap_to_pi_math_pi: "wrap_to_pi math_pi = - math_pi"
proof (rule wrap_to_pi_steps)
  show "float64 (math_pi + math_pi) = 2 * math_pi" using float64_two_pi by simp
  show "fmod (2 * math_pi) (2 * math_pi) = 0"
    using math_pi_pos by (simp add: fmod_def trunc_def)
  show "(if (0::real) < 0 then float64 (0 + 2 * math_pi) else 0) = 0" by simp
  show "float64 (0 - math_pi) = - math_pi" using float64_math_pi(2) by simp
qed

lemma wrap_to_pi_zero: "wrap_to_pi 0 = 0"
proof (rule wrap_to_pi_steps)
  show "float64 (0 + math_pi) = math_pi" using float64_math_pi(1) by simp
  show "fmod math_pi (2 * math_pi) = math_pi"
    using math_pi_pos by (intro fmod_small) simp_all
  show "(if math_pi < 0 then float64 (math_pi + 2 * math_pi) else math_pi) = math_pi"
    using math_pi_pos by simp
  show "float64 (math_pi - math_pi) = 0" by (simp add: float64_def)
qed

lemma wrap_to_pi_one: "wrap_to_pi 1 = 1"
proof (rule wrap_to_pi_steps)
  show "float64 (1 + math_pi) = 1 + math_pi"
    by (intro float64_exact [of _ 4663018782856844 "- 50"]) (simp_all add: math_pi_def pow2_def)
  show "fmod (1 + math_pi) (2 * math_pi) = 1 + math_pi"
    by (intro fmod_small) (simp_all add: math_pi_def)
  show "(if 1 + math_pi < 0 then float64 (1 + math_pi + 2 * math_pi) else 1 + math_pi) = 1 + math_pi"
    using math_pi_pos by simp
  have "float64 1 = 1"
    by (intro float64_exact [of _ 1 0]) (simp_all add: pow2_def)
  then show "float64 (1 + math_pi - math_pi) = 1" by simp
qed

lemma wrap_to_pi_below_minus_pi: "wrap_to_pi below_minus_pi = math_pi"
proof (rule wrap_to_pi_steps)
  have v: "below_minus_pi + math_pi = - (1 / 2251799813685248)"
    by (simp add: below_minus_pi_def math_pi_def)
  have "float64 (- (1 / 2251799813685248)) = - (1 / 2251799813685248)"
    by (intro float64_exact [of _ "- 1" "- 51"]) (simp_all add: pow2_def)
  then show "float64 (below_minus_pi + math_pi) = - (1 / 2251799813685248)"
    by (simp only: v)
  have "- 1 < - (1 / 2251799813685248) / (2 * math_pi)"
    and neg: "- (1 / 2251799813685248) / (2 * math_pi) < 0"
    by (simp_all add: math_pi_def)
  then have "\<lceil>- (1 / 2251799813685248) / (2 * math_pi)\<rceil> = 0" by linarith
  then show "fmod (- (1 / 2251799813685248)) (2 * math_pi) = - (1 / 2251799813685248)"
    using neg by (simp add: fmod_def trunc_def)
  have "float64 (- (1 / 2251799813685248) + 2 * math_pi) =
      pow2 (2 - 52) * of_int (round_even ((- (1 / 2251799813685248) + 2 * math_pi) / pow2 (2 - 52)))"
    by (rule float64_eval) (simp_all add: math_pi_def pow2_def)
  moreover have "(- (1 / 2251799813685248) + 2 * math_pi) / pow2 (2 - 52) = 14148475504056879 / 2"
    by (simp add: math_pi_def pow2_def)
  moreover have "round_even (14148475504056879 / 2) = 7074237752028440"
    by (simp add: round_even_def Let_def)
  ultimately have "float64 (- (1 / 2251799813685248) + 2 * math_pi) = 2 * math_pi"
    by (simp add: math_pi_def pow2_def)
  then show "(if - (1 / 2251799813685248) < (0::real)
      then float64 (- (1 / 2251799813685248) + 2 * math_pi)
      else - (1 / 2251799813685248)) = 2 * math_pi"
    by simp
  show "float64 (2 * math_pi - math_pi) = math_pi" using float64_math_pi(1) by simp
qed


lemma wrap_to_pi_tiny: "wrap_to_pi (1 / 2 ^ 60) = 0"
proof (rule wrap_to_pi_steps)
  have "float64 (1 / 2 ^ 60 + math_pi) =
      pow2 (1 - 52) * of_int (round_even ((1 / 2 ^ 60 + math_pi) / pow2 (1 - 52)))"
    by (rule float64_eval) (simp_all add: math_pi_def pow2_def)
  moreover have "(1 / 2 ^ 60 + math_pi) / pow2 (1 - 52) = 3622009729038561281 / 512"
    by (simp add: math_pi_def pow2_def)
  moreover have "round_even (3622009729038561281 / 512) = 7074237752028440"
    by (simp add: round_even_def Let_def)
  ultimately show "float64 (1 / 2 ^ 60 + math_pi) = math_pi"
    by (simp add: math_pi_def pow2_def)
  show "fmod math_pi (2 * math_pi) = math_pi"
    using math_pi_pos by (intro fmod_small) simp_all
  show "(if math_pi < 0 then float64 (math_pi + 2 * math_pi) else math_pi) = math_pi"
    using math_pi_pos by simp
  show "float64 (math_pi - math_pi) = 0" by (simp add: float64_def)
qed

lemma wrap_to_pi_congruent:
  "\<exists>k::int. \<bar>wrap_to_pi th - (th + 2 * math_pi * of_int k)\<bar> \<le> (\<bar>th + math_pi\<bar> + 3 * math_pi) / 2 ^ 53"
proof -
  define a where "a = float64 (th + math_pi)"
  define r where "r = fmod a (2 * math_pi)"
  define r' where "r' = (if r < 0 then float64 (r + 2 * math_pi) else r)"
  define s where "s = (if r < 0 then r + 2 * math_pi else r)"
  have w: "wrap_to_pi th = float64 (r' - math_pi)"
    by (simp add: wrap_to_pi_def Let_def float64_two_pi a_def r_def r'_def)
  have e1: "\<bar>a - (th + math_pi)\<bar> \<le> \<bar>th + math_pi\<bar> / 2 ^ 53"
    unfolding a_def by (rule float64_err)
  have r: "- (2 * math_pi) < r \<and> r < 2 * math_pi"
    using fmod_nonneg [of a "2 * math_pi"] fmod_neg [of a "2 * math_pi"] math_pi_pos
    unfolding r_def by (cases "0 \<le> a") auto
  have s: "0 \<le> s \<and> s \<le> 2 * math_pi" using r by (simp add: s_def)
  have e2: "\<bar>r' - s\<bar> \<le> 2 * math_pi / 2 ^ 53"
  proof (cases "r < 0")
    case True
    have "\<bar>float64 (r + 2 * math_pi) - (r + 2 * math_pi)\<bar> \<le> \<bar>r + 2 * math_pi\<bar> / 2 ^ 53"
      by (rule float64_err)
    moreover have "\<bar>r + 2 * math_pi\<bar> \<le> 2 * math_pi" using True r by simp
    ultimately show ?thesis using True by (simp add: r'_def s_def field_simps)
  next
    case False
    then show ?thesis using math_pi_pos by (simp add: r'_def s_def)
  qed
  have r': "0 \<le> r' \<and> r' \<le> 2 * math_pi"
  proof (cases "r < 0")
    case True
    then have "\<bar>r + 2 * math_pi\<bar> \<le> 2 * math_pi" "0 \<le> r + 2 * math_pi" using r by simp_all
    then have "\<bar>float64 (r + 2 * math_pi)\<bar> \<le> 2 * math_pi" "0 \<le> float64 (r + 2 * math_pi)"
      using float64_abs_le [OF two_pi_repr(1) _ two_pi_repr(2)] float64_nonneg by blast+
    then show ?thesis using True by (simp add: r'_def)
  next
    case False
    then show ?thesis using r by (simp add: r'_def)
  qed
  have "\<bar>float64 (r' - math_pi) - (r' - math_pi)\<bar> \<le> \<bar>r' - math_pi\<bar> / 2 ^ 53"
    by (rule float64_err)
  moreover have "\<bar>r' - math_pi\<bar> \<le> math_pi" using r' by (simp add: abs_le_iff)
  ultimately have e3: "\<bar>wrap_to_pi th - (r' - math_pi)\<bar> \<le> math_pi / 2 ^ 53"
    using w by (simp add: field_simps)
  obtain n :: int where n: "r = a + 2 * math_pi * of_int n"
    using fmod_multiple [of a "2 * math_pi"] unfolding r_def by blast
  define k where "k = (if r < 0 then n + 1 else n)"
  have sk: "s = a + 2 * math_pi * of_int k"
    using n by (simp add: s_def k_def algebra_simps)
  have "wrap_to_pi th - (th + 2 * math_pi * of_int k) =
      (wrap_to_pi th - (r' - math_pi)) + (r' - s) + (a - (th + math_pi))"
    using sk by simp
  then have "\<bar>wrap_to_pi th - (th + 2 * math_pi * of_int k)\<bar> \<le>
      \<bar>wrap_to_pi th - (r' - math_pi)\<bar> + \<bar>r' - s\<bar> + \<bar>a - (th + math_pi)\<bar>"
    by linarith
  then have "\<bar>wrap_to_pi th - (th + 2 * math_pi * of_int k)\<bar> \<le>
      math_pi / 2 ^ 53 + 2 * math_pi / 2 ^ 53 + \<bar>th + math_pi\<bar> / 2 ^ 53"
    using e1 e2 e3 by linarith
  then have "\<bar>wrap_to_pi th - (th + 2 * math_pi * of_int k)\<bar> \<le>
      (\<bar>th + math_pi\<bar> + 3 * math_pi) / 2 ^ 53"
    by (simp add: field_simps)
  then show ?thesis by blast
qed


lemma euler2quat_yaw: "euler2quat 0 0 a = [cos (a / 2), 0, 0, sin (a / 2)]"
  by (simp add: euler2quat_def)

lemma wrap_to_pi_minus_math_pi: "wrap_to_pi (- math_pi) = - math_pi"
proof (rule wrap_to_pi_steps)
  show "float64 (- math_pi + math_pi) = 0" by (simp add: float64_def)
  show "fmod 0 (2 * math_pi) = 0" by (simp add: fmod_def trunc_def)
  show "(if (0::real) < 0 then float64 (0 + 2 * math_pi) else 0) = 0" by simp
  show "float64 (0 - math_pi) = - math_pi" using float64_math_pi(2) by simp
qed

lemma tiny_not_congruent: "\<not> (\<exists>k::int. (0::real) = 1 / 2 ^ 60 + 2 * math_pi * of_int k)"
proof
  assume "\<exists>k::int. (0::real) = 1 / 2 ^ 60 + 2 * math_pi * of_int k"
  then obtain k :: int where "(0::real) = 1 / 2 ^ 60 + 2 * math_pi * of_int k" by blast
  then have k: "math_pi * of_int k = - (1 / 2 ^ 61)" by simp
  have p: "3 < math_pi" by (simp add: math_pi_def)
  consider "k = 0" | "1 \<le> k" | "k \<le> - 1" by linarith
  then show False
  proof cases
    case 1
    then show ?thesis using k by simp
  next
    case 2
    then have "(1::real) \<le> of_int k" by simp
    then have "math_pi * 1 \<le> math_pi * of_int k"
      using p by (intro mult_left_mono) simp_all
    then have "math_pi \<le> math_pi * of_int k" by (simp only: mult_1_right)
    then have "3 < math_pi * of_int k" using p by linarith
    then show ?thesis by (simp only: k) simp
  next
    case 3
    then have "of_int k \<le> (- 1::real)" by linarith
    then have "math_pi * of_int k \<le> math_pi * (- 1)"
      using p by (intro mult_left_mono) simp_all
    then have "math_pi * of_int k \<le> - math_pi" by (simp only: mult_minus1_right)
    then have "math_pi * of_int k < - 3" using p by linarith
    then show ?thesis by (simp only: k) simp
  qed
qed

subsection \<open>Claims about the wrapped angle\<close>

text \<open>
  C1. The claim places the wrapped angle in the interval open at \<open>-\<pi>\<close> and closed at
  \<open>\<pi>\<close>, and makes it congruent to the angle modulo \<open>2\<pi>\<close>, with \<open>\<pi>\<close> the program's
  \<^verbatim>\<open>math.pi\<close>. At the angle \<open>\<pi>\<close> the function returns \<open>-\<pi>\<close>, which is outside that
  interval; at the angle \<open>2\<close> to the power \<open>-60\<close> it returns \<open>0\<close>, which differs from
  the angle by no multiple of \<open>2\<pi>\<close>.
\<close>

theorem wrap_to_pi_open_closed_counterexample:
  "\<not> (- math_pi < wrap_to_pi math_pi \<and> wrap_to_pi math_pi \<le> math_pi) \<and>
   \<not> (\<exists>k::int. wrap_to_pi (1 / 2 ^ 60) = 1 / 2 ^ 60 + 2 * math_pi * of_int k)"
proof -
  have "\<not> (- math_pi < wrap_to_pi math_pi \<and> wrap_to_pi math_pi \<le> math_pi)"
    by (simp add: wrap_to_pi_math_pi)
  moreover have "\<not> (\<exists>k::int. wrap_to_pi (1 / 2 ^ 60) = 1 / 2 ^ 60 + 2 * math_pi * of_int k)"
    unfolding wrap_to_pi_tiny by (rule tiny_not_congruent)
  ultimately show ?thesis by blast
qed

text \<open>
  C1, amended. For every real angle the wrapped angle lies in the closed interval from
  \<open>-\<pi>\<close> to \<open>\<pi>\<close>, and it is congruent to the angle modulo \<open>2\<pi>\<close> up to the rounding of
  the three operations: some whole multiple of \<open>2\<pi>\<close> brings the angle within
  \<open>(|\<theta> + \<pi>| + 3\<pi>) / 2^53\<close> of it.
\<close>

theorem wrap_to_pi_closed_congruent:
  "- math_pi \<le> wrap_to_pi th \<and> wrap_to_pi th \<le> math_pi \<and>
   (\<exists>k::int. \<bar>wrap_to_pi th - (th + 2 * math_pi * of_int k)\<bar>
      \<le> (\<bar>th + math_pi\<bar> + 3 * math_pi) / 2 ^ 53)"
  using wrap_to_pi_bounds [of th] wrap_to_pi_congruent [of th] by blast

text \<open>
  C9. The claim keeps the wrapped angle below \<open>\<pi>\<close> and says that \<open>\<pi>\<close> is never
  returned. For the binary64 number just below \<open>-\<pi>\<close> the sum with \<open>\<pi>\<close> is
  \<open>-2^-51\<close>, adding \<open>2\<pi>\<close> is a tie that rounds to \<open>2\<pi>\<close>, and the function returns
  \<open>\<pi>\<close>.
\<close>

theorem wrap_to_pi_returns_pi_counterexample:
  "wrap_to_pi below_minus_pi = math_pi \<and>
   \<not> (- math_pi \<le> wrap_to_pi below_minus_pi \<and> wrap_to_pi below_minus_pi < math_pi)"
  by (simp add: wrap_to_pi_below_minus_pi)

text \<open>
  C9, amended. For every real angle the wrapped angle lies in the closed range from
  \<open>-\<pi>\<close> to \<open>\<pi>\<close>. The angle \<open>\<pi>\<close> is wrapped to \<open>-\<pi>\<close>, and so is \<open>-\<pi>\<close>; the value
  \<open>\<pi>\<close> is returned for the binary64 number just below \<open>-\<pi>\<close>.
\<close>

theorem wrap_to_pi_closed_range:
  "(- math_pi \<le> wrap_to_pi th \<and> wrap_to_pi th \<le> math_pi) \<and>
   wrap_to_pi math_pi = - math_pi \<and> wrap_to_pi (- math_pi) = - math_pi \<and>
   wrap_to_pi below_minus_pi = math_pi"
  using wrap_to_pi_bounds [of th]
  by (simp add: wrap_to_pi_math_pi wrap_to_pi_minus_math_pi wrap_to_pi_below_minus_pi)

subsection \<open>Claims about one timer tick\<close>

text \<open>
  C2. On a tick where both simulation times are set and the elapsed time is at least the
  integration period, the pose after the tick is one Euler step from the pose before it:
  with \<open>v_r = wheel_radius * omega_r\<close>, \<open>v_l = wheel_radius * omega_l\<close>,
  \<open>V = (v_r + v_l) / 2\<close> and \<open>\<Omega> = (v_r - v_l) / wheel_base\<close>, the tick adds
  \<open>V cos(theta) dt\<close> to \<open>x\<close>, \<open>V sin(theta) dt\<close> to \<open>y\<close>, and sets the heading to the
  wrapped \<open>theta + \<Omega> dt\<close>, all with the heading before the step. The quotient by the
  wheel base is defined for a non-zero wheel base, which the theorem assumes.
\<close>

theorem update_odometry_euler_step:
  assumes "wheel_base self \<noteq> 0"
    and "sim_time self = Some now"
    and "last_sim_time self = Some prev"
    and "integration_period self \<le> now - prev"
  shows "\<exists>self' msgs. update_odometry self = Inr (self', msgs) \<and>
     (let dt = now - prev;
          v_r = wheel_radius self * omega_r self;
          v_l = wheel_radius self * omega_l self;
          V = (v_r + v_l) / 2;
          Omega = (v_r - v_l) / wheel_base self
      in x self' = x self + V * cos (theta self) * dt \<and>
         y self' = y self + V * sin (theta self) * dt \<and>
         theta self' = wrap_to_pi (theta self + Omega * dt))"
  using assms by (simp add: update_odometry_def Let_def)

theorem update_odometry_euler_step_witness:
  "wheel_base (demo\<lparr>omega_l := 0\<rparr>) \<noteq> 0 \<and> sim_time (demo\<lparr>omega_l := 0\<rparr>) = Some 2 \<and>
   last_sim_time (demo\<lparr>omega_l := 0\<rparr>) = Some 1 \<and>
   integration_period (demo\<lparr>omega_l := 0\<rparr>) \<le> 2 - 1 \<and>
   (\<exists>self' msgs. update_odometry (demo\<lparr>omega_l := 0\<rparr>) = Inr (self', msgs) \<and>
      x self' = 1 / 2 \<and> y self' = 0 \<and> theta self' = 1)"
  using update_odometry_euler_step [of "demo\<lparr>omega_l := 0\<rparr>" 2 1]
  by (simp add: demo_def Let_def wrap_to_pi_one)

text \<open>
  C3. The timer callback follows the clock gate of the specification. When the gate
  signals \<open>NotReady\<close> (current time unset; baseline unset and seeded with the current
  time; elapsed time below the integration period, baseline kept), the callback returns
  with the baseline the gate gives, nothing else changed and nothing sent. When the gate
  signals \<open>Ready dt\<close>, the baseline after the callback is the current simulation time
  and, the wheel base being non-zero, the pose is integrated with exactly that \<open>dt\<close>.
\<close>

theorem update_odometry_clock_gate:
  "(case spec_clock_gate (sim_time self) (last_sim_time self) (integration_period self) of
      (baseline, NotReady) \<Rightarrow>
        update_odometry self = Inr (self\<lparr>last_sim_time := baseline\<rparr>, [])
    | (baseline, Ready dt) \<Rightarrow>
        last_sim_time (node_after (update_odometry self)) = baseline \<and>
        baseline = sim_time self \<and>
        (wheel_base self \<noteq> 0 \<longrightarrow>
           (\<exists>self' msgs. update_odometry self = Inr (self', msgs) \<and> msgs \<noteq> [] \<and>
              (let v_r = wheel_radius self * omega_r self;
                   v_l = wheel_radius self * omega_l self;
                   V = (v_r + v_l) / 2;
                   Omega = (v_r - v_l) / wheel_base self
               in x self' = x self + V * cos (theta self) * dt \<and>
                  y self' = y self + V * sin (theta self) * dt \<and>
                  theta self' = wrap_to_pi (theta self + Omega * dt)))))"
  by (simp add: spec_clock_gate_def update_odometry_def node_after_def Let_def
      split: option.splits)

theorem update_odometry_clock_gate_witness:
  "spec_clock_gate (sim_time demo) (last_sim_time demo) (integration_period demo) = (Some 2, Ready 1) \<and>
   wheel_base demo \<noteq> 0 \<and>
   last_sim_time (node_after (update_odometry demo)) = Some 2 \<and>
   (\<exists>self' msgs. update_odometry demo = Inr (self', msgs) \<and> msgs \<noteq> [] \<and>
      x self' = 1 \<and> y self' = 0 \<and> theta self' = 0)"
  using update_odometry_clock_gate [of demo]
  by (simp add: demo_def spec_clock_gate_def Let_def wrap_to_pi_zero node_after_def)


text \<open>
  C4. On a tick where the simulation time is unset, or the baseline is unset, or the
  elapsed time is below the integration period, the callback returns normally, sends no
  message and leaves \<open>x\<close>, \<open>y\<close> and \<open>theta\<close> as they were.
\<close>

theorem update_odometry_not_ready:
  assumes "sim_time self = None \<or> last_sim_time self = None \<or>
     (\<exists>now prev. sim_time self = Some now \<and> last_sim_time self = Some prev \<and>
        now - prev < integration_period self)"
  shows "\<exists>self'. update_odometry self = Inr (self', []) \<and>
     x self' = x self \<and> y self' = y self \<and> theta self' = theta self"
  using assms by (auto simp add: update_odometry_def Let_def split: option.splits)


theorem update_odometry_not_ready_witness:
  "sim_time (demo\<lparr>sim_time := Some (201 / 200)\<rparr>) = Some (201 / 200) \<and>
   last_sim_time (demo\<lparr>sim_time := Some (201 / 200)\<rparr>) = Some 1 \<and>
   201 / 200 - 1 < integration_period (demo\<lparr>sim_time := Some (201 / 200)\<rparr>) \<and>
   (\<exists>self'. update_odometry (demo\<lparr>sim_time := Some (201 / 200)\<rparr>) = Inr (self', []) \<and>
      x self' = 0 \<and> y self' = 0 \<and> theta self' = 0)"
proof -
  have "\<exists>now prev. sim_time (demo\<lparr>sim_time := Some (201 / 200)\<rparr>) = Some now \<and>
      last_sim_time (demo\<lparr>sim_time := Some (201 / 200)\<rparr>) = Some prev \<and>
      now - prev < integration_period (demo\<lparr>sim_time := Some (201 / 200)\<rparr>)"
    by (rule exI [of _ "201 / 200"], rule exI [of _ 1]) (simp add: demo_def)
  then have "\<exists>self'. update_odometry (demo\<lparr>sim_time := Some (201 / 200)\<rparr>) = Inr (self', []) \<and>
      x self' = x (demo\<lparr>sim_time := Some (201 / 200)\<rparr>) \<and>
      y self' = y (demo\<lparr>sim_time := Some (201 / 200)\<rparr>) \<and>
      theta self' = theta (demo\<lparr>sim_time := Some (201 / 200)\<rparr>)"
    using update_odometry_not_ready [of "demo\<lparr>sim_time := Some (201 / 200)\<rparr>"] by blast
  then show ?thesis by (simp add: demo_def)
qed


subsection \<open>Invariants of a run\<close>

lemma node_after_spin_Cons:
  "node_after (spin self (e # es)) =
     (case dispatch self e of
        Inl r \<Rightarrow> snd r
      | Inr r \<Rightarrow> node_after (spin (fst r) es))"
  by (simp add: node_after_def split: sum.splits prod.splits)

lemma spin_invariant:
  assumes "P self" and step: "\<And>s e. P s \<Longrightarrow> P (node_after (dispatch s e))"
  shows "P (node_after (spin self evs))"
  using assms(1)
proof (induction evs arbitrary: self)
  case Nil
  then show ?case by (simp add: node_after_def)
next
  case (Cons e es)
  have after: "P (node_after (dispatch self e))" using Cons.prems step by blast
  show ?case
  proof (cases "dispatch self e")
    case (Inl r)
    then have "node_after (spin self (e # es)) = node_after (dispatch self e)"
      by (simp add: node_after_def split: prod.splits)
    then show ?thesis using after by simp
  next
    case (Inr r)
    then have "P (fst r)" using after by (simp add: node_after_def split: prod.splits)
    then have "P (node_after (spin (fst r) es))" by (rule Cons.IH)
    then show ?thesis using Inr by (simp add: node_after_spin_Cons del: spin.simps)
  qed
qed

lemma update_odometry_theta_range:
  assumes "- math_pi \<le> theta self \<and> theta self \<le> math_pi"
  shows "- math_pi \<le> theta (node_after (update_odometry self)) \<and>
         theta (node_after (update_odometry self)) \<le> math_pi"
  using assms wrap_to_pi_bounds
  by (simp add: update_odometry_def node_after_def Let_def split: option.splits)

lemma dispatch_theta_range:
  assumes "- math_pi \<le> theta self \<and> theta self \<le> math_pi"
  shows "- math_pi \<le> theta (node_after (dispatch self e)) \<and>
         theta (node_after (dispatch self e)) \<le> math_pi"
proof (cases e)
  case Timer
  then show ?thesis using update_odometry_theta_range [OF assms] by simp
qed (use assms in \<open>simp_all add: node_after_def right_wheel_callback_def
      left_wheel_callback_def sim_time_callback_def\<close>)

lemma spin_theta_range:
  assumes "- math_pi \<le> theta self \<and> theta self \<le> math_pi"
  shows "- math_pi \<le> theta (node_after (spin self evs)) \<and>
         theta (node_after (spin self evs)) \<le> math_pi"
  using assms
  by (rule spin_invariant [where P = "\<lambda>s. - math_pi \<le> theta s \<and> theta s \<le> math_pi"])
     (rule dispatch_theta_range)

lemma init_fresh: "init 1 math_pi 40 (1 / 100) = Inr fresh"
  by (simp add: init_def fresh_def)

lemma init_wide: "init 1 (- below_minus_pi) 40 (1 / 100) = Inr wide"
  by (simp add: init_def wide_def)

lemma spin_fresh_half_turn:
  "theta (node_after (spin fresh [RightWheel 1, SimTime 0, Timer, SimTime 1, Timer])) = - math_pi"
  by (simp add: fresh_def node_after_def update_odometry_def right_wheel_callback_def
      sim_time_callback_def Let_def wrap_to_pi_math_pi)

lemma spin_wide_turned:
  "node_after (spin wide [RightWheel (- 1), SimTime 0, Timer, SimTime 1, Timer,
     RightWheel 0, SimTime 2]) = turned"
  by (simp add: wide_def turned_def node_after_def update_odometry_def right_wheel_callback_def
      sim_time_callback_def Let_def wrap_to_pi_below_minus_pi)

text \<open>
  C5. The claim keeps the heading in the interval open at \<open>-\<pi>\<close> and closed at
  \<open>\<pi>\<close>. A node started with wheel base 1 and wheel radius \<open>\<pi>\<close>, whose right wheel
  turns at 1 rad/s for one second of simulation time, ends with heading \<open>-\<pi>\<close>.
\<close>

theorem heading_open_closed_counterexample:
  "init 1 math_pi 40 (1 / 100) = Inr fresh \<and>
   \<not> (- math_pi < theta (node_after (spin fresh [RightWheel 1, SimTime 0, Timer, SimTime 1, Timer])) \<and>
      theta (node_after (spin fresh [RightWheel 1, SimTime 0, Timer, SimTime 1, Timer])) \<le> math_pi)"
  by (simp add: init_fresh spin_fresh_half_turn del: spin.simps)

text \<open>
  C5, amended. The heading lies in the closed interval from \<open>-\<pi>\<close> to \<open>\<pi>\<close> at process
  start, and every callback, and so every run of callbacks, keeps it there. Both ends are
  reached.
\<close>

theorem heading_closed_invariant:
  "(init wb wr ur ip = Inr self \<longrightarrow> - math_pi \<le> theta self \<and> theta self \<le> math_pi) \<and>
   (- math_pi \<le> theta self \<and> theta self \<le> math_pi \<longrightarrow>
      (- math_pi \<le> theta (node_after (dispatch self e)) \<and>
       theta (node_after (dispatch self e)) \<le> math_pi) \<and>
      (- math_pi \<le> theta (node_after (spin self evs)) \<and>
       theta (node_after (spin self evs)) \<le> math_pi))"
proof -
  have "init wb wr ur ip = Inr self \<longrightarrow> - math_pi \<le> theta self \<and> theta self \<le> math_pi"
    using math_pi_pos by (auto simp add: init_def split: if_splits)
  then show ?thesis using dispatch_theta_range spin_theta_range by blast
qed

theorem heading_closed_invariant_witness:
  "init 1 math_pi 40 (1 / 100) = Inr fresh \<and>
   - math_pi \<le> theta fresh \<and> theta fresh \<le> math_pi \<and>
   theta (node_after (dispatch fresh Timer)) = 0 \<and>
   theta (node_after (spin fresh [RightWheel 1, SimTime 0, Timer, SimTime 1, Timer])) = - math_pi \<and>
   - math_pi \<le> theta (node_after (spin fresh [RightWheel 1, SimTime 0, Timer, SimTime 1, Timer])) \<and>
   theta (node_after (spin fresh [RightWheel 1, SimTime 0, Timer, SimTime 1, Timer])) \<le> math_pi \<and>
   theta (node_after (spin wide [RightWheel (- 1), SimTime 0, Timer, SimTime 1, Timer,
     RightWheel 0, SimTime 2])) = math_pi"
proof -
  have "theta (node_after (dispatch fresh Timer)) = 0"
    by (simp add: fresh_def update_odometry_def node_after_def)
  moreover have "theta turned = math_pi" by (simp add: turned_def)
  ultimately show ?thesis
    using heading_closed_invariant [of 1 math_pi 40 "1 / 100" fresh Timer
      "[RightWheel 1, SimTime 0, Timer, SimTime 1, Timer]"] math_pi_pos
    by (simp add: init_fresh spin_fresh_half_turn spin_wide_turned del: spin.simps)
qed

subsection \<open>Zero wheel speeds\<close>

lemma zero_tick:
  assumes "wheel_base self \<noteq> 0" "omega_r self = 0" "omega_l self = 0"
    and "sim_time self = Some now" "last_sim_time self = Some prev"
    and "integration_period self \<le> now - prev"
  shows "\<exists>self' a b. update_odometry self = Inr (self', [a, b]) \<and>
     x self' = x self \<and> y self' = y self \<and> theta self' = wrap_to_pi (theta self) \<and>
     last_sim_time self' = Some now \<and> wheel_base self' = wheel_base self \<and>
     omega_r self' = 0 \<and> omega_l self' = 0 \<and>
     integration_period self' = integration_period self"
  using assms by (simp add: update_odometry_def Let_def)

lemma zero_ticks:
  assumes "wheel_base self \<noteq> 0" "omega_r self = 0" "omega_l self = 0"
    and "last_sim_time self = Some prev"
    and "ready_chain prev (integration_period self) ts"
  shows "\<exists>self' msgs. spin self (ticks ts) = Inr (self', msgs) \<and>
     x self' = x self \<and> y self' = y self \<and>
     theta self' = (wrap_to_pi ^^ length ts) (theta self) \<and>
     last_sim_time self' = Some (last (prev # ts)) \<and> length msgs = 2 * length ts"
  using assms
proof (induction ts arbitrary: self prev)
  case Nil
  then show ?case by simp
next
  case (Cons t ts)
  let ?s1 = "sim_time_callback self t"
  have ready: "integration_period ?s1 \<le> t - prev"
    and chain: "ready_chain t (integration_period self) ts"
    using Cons.prems(5) by (simp_all add: sim_time_callback_def)
  have "\<exists>self' a b. update_odometry ?s1 = Inr (self', [a, b]) \<and>
     x self' = x ?s1 \<and> y self' = y ?s1 \<and> theta self' = wrap_to_pi (theta ?s1) \<and>
     last_sim_time self' = Some t \<and> wheel_base self' = wheel_base ?s1 \<and>
     omega_r self' = 0 \<and> omega_l self' = 0 \<and>
     integration_period self' = integration_period ?s1"
    using Cons.prems(1-4) ready
    by (intro zero_tick) (simp_all add: sim_time_callback_def)
  then obtain s2 a b where s2: "update_odometry ?s1 = Inr (s2, [a, b])"
    and pose: "x s2 = x self" "y s2 = y self" "theta s2 = wrap_to_pi (theta self)"
    and rest: "last_sim_time s2 = Some t" "wheel_base s2 = wheel_base self"
      "omega_r s2 = 0" "omega_l s2 = 0" "integration_period s2 = integration_period self"
    by (auto simp add: sim_time_callback_def)
  have "\<exists>self' msgs. spin s2 (ticks ts) = Inr (self', msgs) \<and>
     x self' = x s2 \<and> y self' = y s2 \<and>
     theta self' = (wrap_to_pi ^^ length ts) (theta s2) \<and>
     last_sim_time self' = Some (last (t # ts)) \<and> length msgs = 2 * length ts"
    using Cons.prems(1) rest chain by (intro Cons.IH) simp_all
  then obtain s3 msgs where s3: "spin s2 (ticks ts) = Inr (s3, msgs)"
    and pose3: "x s3 = x s2" "y s3 = y s2" "theta s3 = (wrap_to_pi ^^ length ts) (theta s2)"
    and rest3: "last_sim_time s3 = Some (last (t # ts))" "length msgs = 2 * length ts"
    by blast
  have "spin self (ticks (t # ts)) = Inr (s3, [a, b] @ msgs)"
    using s2 s3 by simp
  then show ?case using pose pose3 rest3 by (simp add: funpow_swap1)
qed

text \<open>
  C6. The claim leaves the heading unchanged on a ready tick with both wheel speeds
  zero. The node \<open>turned\<close>, reached from process start, has both wheel speeds zero and
  the heading \<open>\<pi>\<close>; its next tick is ready and sets the heading to \<open>-\<pi>\<close>.
\<close>

theorem zero_input_heading_counterexample:
  "init 1 (- below_minus_pi) 40 (1 / 100) = Inr wide \<and>
   node_after (spin wide [RightWheel (- 1), SimTime 0, Timer, SimTime 1, Timer,
     RightWheel 0, SimTime 2]) = turned \<and>
   omega_r turned = 0 \<and> omega_l turned = 0 \<and>
   sim_time turned = Some 2 \<and> last_sim_time turned = Some 1 \<and>
   integration_period turned \<le> 2 - 1 \<and>
   theta turned = math_pi \<and>
   theta (node_after (update_odometry turned)) = - math_pi \<and>
   theta (node_after (update_odometry turned)) \<noteq> theta turned"
proof -
  have "theta (node_after (update_odometry turned)) = - math_pi"
    by (simp add: turned_def update_odometry_def node_after_def Let_def wrap_to_pi_math_pi)
  moreover have "theta turned = math_pi" "omega_r turned = 0" "omega_l turned = 0"
    "sim_time turned = Some 2" "last_sim_time turned = Some 1"
    "integration_period turned \<le> 2 - 1"
    by (simp_all add: turned_def)
  ultimately show ?thesis
    using init_wide spin_wide_turned math_pi_pos by (simp del: spin.simps)
qed

text \<open>
  C6, amended. Take a node with both wheel speeds zero, a non-zero wheel base and the
  baseline set. Any number of clock samples, each followed by a tick that finds at least
  the integration period elapsed, all return normally, send two messages per tick, leave
  \<open>x\<close> and \<open>y\<close> as they were and move the baseline to the last clock sample. Each tick
  replaces the heading by its wrapped value, which is the heading modulo \<open>2\<pi>\<close> up to
  rounding and need not be the heading itself.
\<close>

theorem zero_input_wraps_heading:
  assumes "wheel_base self \<noteq> 0"
    and "omega_r self = 0" and "omega_l self = 0"
    and "last_sim_time self = Some prev"
    and "ready_chain prev (integration_period self) ts"
  shows "\<exists>self' msgs. spin self (ticks ts) = Inr (self', msgs) \<and>
     x self' = x self \<and> y self' = y self \<and>
     theta self' = (wrap_to_pi ^^ length ts) (theta self) \<and>
     last_sim_time self' = Some (last (prev # ts)) \<and> length msgs = 2 * length ts"
  using assms by (rule zero_ticks)

theorem zero_input_wraps_heading_witness:
  "wheel_base turned \<noteq> 0 \<and> omega_r turned = 0 \<and> omega_l turned = 0 \<and>
   last_sim_time turned = Some 1 \<and> ready_chain 1 (integration_period turned) [2, 3] \<and>
   (\<exists>self' msgs. spin turned (ticks [2, 3]) = Inr (self', msgs) \<and>
      x self' = below_minus_pi / 2 \<and> y self' = 0 \<and> theta self' = - math_pi \<and>
      last_sim_time self' = Some 3 \<and> length msgs = 4)"
proof -
  have chain: "ready_chain 1 (integration_period turned) [2, 3]"
    by (simp add: turned_def)
  have "(wrap_to_pi ^^ length [2 :: real, 3]) (theta turned) = - math_pi"
    by (simp add: turned_def numeral_2_eq_2 wrap_to_pi_math_pi wrap_to_pi_minus_math_pi)
  moreover have "\<exists>self' msgs. spin turned (ticks [2, 3]) = Inr (self', msgs) \<and>
      x self' = x turned \<and> y self' = y turned \<and>
      theta self' = (wrap_to_pi ^^ length [2 :: real, 3]) (theta turned) \<and>
      last_sim_time self' = Some (last [1, 2, 3]) \<and> length msgs = 2 * length [2 :: real, 3]"
    using zero_input_wraps_heading [of turned 1 "[2, 3]"] chain
    by (simp add: turned_def)
  ultimately have "\<exists>self' msgs. spin turned (ticks [2, 3]) = Inr (self', msgs) \<and>
      x self' = below_minus_pi / 2 \<and> y self' = 0 \<and> theta self' = - math_pi \<and>
      last_sim_time self' = Some 3 \<and> length msgs = 4"
    by (simp add: turned_def)
  then show ?thesis using chain by (simp add: turned_def)
qed

subsection \<open>The messages of a ready tick\<close>




text \<open>
  C8. On a ready tick (wheel base non-zero) the callback sends exactly two messages, the
  odometry message and then the transform. Both are stamped with the node's simulation
  time, both name the frame \<open>odom\<close> and the child frame \<open>base_footprint\<close>. The odometry
  message carries the position \<open>(x, y, 0)\<close> after the step, the yaw quaternion, the
  linear velocity \<open>(V, 0, 0)\<close> and the angular velocity \<open>(0, 0, \<Omega>)\<close>; the transform
  carries the same position as translation and the same quaternion as rotation.
\<close>

theorem update_odometry_emits:
  assumes "wheel_base self \<noteq> 0"
    and "sim_time self = Some now"
    and "last_sim_time self = Some prev"
    and "integration_period self \<le> now - prev"
  shows "\<exists>self' odom_msg t. update_odometry self = Inr (self', [Publish odom_msg, SendTransform t]) \<and>
     (let v_r = wheel_radius self * omega_r self;
          v_l = wheel_radius self * omega_l self;
          V = (v_r + v_l) / 2;
          Omega = (v_r - v_l) / wheel_base self
      in odom_stamp odom_msg = now \<and> sim_time self' = Some now \<and>
         odom_frame_id odom_msg = ''odom'' \<and>
         odom_child_frame_id odom_msg = ''base_footprint'' \<and>
         pose_position odom_msg = \<lparr>vx = x self', vy = y self', vz = 0\<rparr> \<and>
         pose_orientation odom_msg =
           \<lparr>qx = 0, qy = 0, qz = sin (theta self' / 2), qw = cos (theta self' / 2)\<rparr> \<and>
         twist_linear odom_msg = \<lparr>vx = V, vy = 0, vz = 0\<rparr> \<and>
         twist_angular odom_msg = \<lparr>vx = 0, vy = 0, vz = Omega\<rparr> \<and>
         tf_stamp t = now \<and>
         tf_frame_id t = ''odom'' \<and>
         tf_child_frame_id t = ''base_footprint'' \<and>
         translation t = pose_position odom_msg \<and>
         rotation t = pose_orientation odom_msg)"
  using assms
  by (simp add: update_odometry_def Let_def euler2quat_yaw Odometry_def TransformStamped_def
      Vector3_def)

theorem update_odometry_emits_witness:
  "wheel_base demo \<noteq> 0 \<and> sim_time demo = Some 2 \<and> last_sim_time demo = Some 1 \<and>
   integration_period demo \<le> 2 - 1 \<and>
   (\<exists>self' odom_msg t. update_odometry demo = Inr (self', [Publish odom_msg, SendTransform t]) \<and>
      odom_stamp odom_msg = 2 \<and> odom_frame_id odom_msg = ''odom'' \<and>
      odom_child_frame_id odom_msg = ''base_footprint'' \<and>
      pose_position odom_msg = \<lparr>vx = 1, vy = 0, vz = 0\<rparr> \<and>
      pose_orientation odom_msg = \<lparr>qx = 0, qy = 0, qz = 0, qw = 1\<rparr> \<and>
      twist_linear odom_msg = \<lparr>vx = 1, vy = 0, vz = 0\<rparr> \<and>
      twist_angular odom_msg = \<lparr>vx = 0, vy = 0, vz = 0\<rparr> \<and>
      tf_stamp t = 2 \<and> tf_frame_id t = ''odom'' \<and> tf_child_frame_id t = ''base_footprint'' \<and>
      translation t = \<lparr>vx = 1, vy = 0, vz = 0\<rparr> \<and>
      rotation t = \<lparr>qx = 0, qy = 0, qz = 0, qw = 1\<rparr>)"
  using update_odometry_emits [of demo 2 1]
  by (simp add: demo_def update_odometry_def Let_def wrap_to_pi_zero euler2quat_yaw Odometry_def
      TransformStamped_def Vector3_def)


subsection \<open>The clock baseline\<close>

lemma dispatch_baseline:
  assumes "0 \<le> integration_period self"
    and "last_sim_time self = Some p" and "prev \<le> p"
  shows "integration_period (node_after (dispatch self e)) = integration_period self \<and>
     (\<exists>q. last_sim_time (node_after (dispatch self e)) = Some q \<and> prev \<le> q)"
proof (cases e)
  case Timer
  then show ?thesis using assms
    by (auto simp add: update_odometry_def node_after_def Let_def split: option.splits)
qed (use assms in \<open>simp_all add: node_after_def right_wheel_callback_def
      left_wheel_callback_def sim_time_callback_def\<close>)

lemma spin_baseline:
  assumes "0 \<le> integration_period self" and "last_sim_time self = Some prev"
  shows "\<exists>q. last_sim_time (node_after (spin self evs)) = Some q \<and> prev \<le> q"
proof -
  let ?P = "\<lambda>s::dead_reckoning. integration_period s = integration_period self \<and>
    (\<exists>q. last_sim_time s = Some q \<and> prev \<le> q)"
  have "?P (node_after (spin self evs))"
  proof (rule spin_invariant [where P = ?P])
    show "?P self" using assms by simp
  next
    fix s e
    assume "?P s"
    then show "?P (node_after (dispatch s e))"
      using assms(1) dispatch_baseline [of s _ prev e] by auto
  qed
  then show ?thesis by simp
qed


text \<open>
  C10. With a non-negative integration period and the baseline set, the baseline stays
  set and never falls below its value, whatever wheel samples, clock samples and timer
  ticks follow. A tick whose simulation time lies before the baseline finds the elapsed
  time below the period and returns with the node unchanged; a ready tick moves the
  baseline to the simulation time, which is at least one integration period later.
\<close>

theorem baseline_never_decreases:
  assumes "0 \<le> integration_period self" and "last_sim_time self = Some prev"
  shows "(\<exists>q. last_sim_time (node_after (spin self evs)) = Some q \<and> prev \<le> q) \<and>
     (sim_time self = Some now \<and> now < prev \<longrightarrow>
        now - prev < integration_period self \<and> update_odometry self = Inr (self, [])) \<and>
     (sim_time self = Some now \<and> integration_period self \<le> now - prev \<longrightarrow>
        last_sim_time (node_after (update_odometry self)) = Some now \<and>
        prev + integration_period self \<le> now)"
proof -
  have run: "\<exists>q. last_sim_time (node_after (spin self evs)) = Some q \<and> prev \<le> q"
    using assms by (rule spin_baseline)
  have jump: "sim_time self = Some now \<and> now < prev \<longrightarrow>
      now - prev < integration_period self \<and> update_odometry self = Inr (self, [])"
    using assms by (simp add: update_odometry_def Let_def)
  have ready: "sim_time self = Some now \<and> integration_period self \<le> now - prev \<longrightarrow>
      last_sim_time (node_after (update_odometry self)) = Some now \<and>
      prev + integration_period self \<le> now"
    using assms by (simp add: update_odometry_def node_after_def Let_def)
  show ?thesis using run jump ready by blast
qed


theorem baseline_never_decreases_witness:
  "0 \<le> integration_period demo \<and> last_sim_time demo = Some 1 \<and>
   last_sim_time (node_after (spin demo [SimTime (1 / 2), Timer, SimTime 3, Timer])) = Some 3 \<and>
   sim_time (demo\<lparr>sim_time := Some (1 / 2)\<rparr>) = Some (1 / 2) \<and>
   update_odometry (demo\<lparr>sim_time := Some (1 / 2)\<rparr>) = Inr (demo\<lparr>sim_time := Some (1 / 2)\<rparr>, []) \<and>
   sim_time demo = Some 2 \<and> integration_period demo \<le> 2 - 1 \<and>
   last_sim_time (node_after (update_odometry demo)) = Some 2 \<and>
   1 + integration_period demo \<le> 2"
proof -
  have run: "last_sim_time (node_after (spin demo [SimTime (1 / 2), Timer, SimTime 3, Timer])) = Some 3"
    by (simp add: demo_def node_after_def update_odometry_def sim_time_callback_def Let_def)
  have period: "0 \<le> integration_period demo" and base: "last_sim_time demo = Some 1"
    by (simp_all add: demo_def)
  have period': "0 \<le> integration_period (demo\<lparr>sim_time := Some (1 / 2)\<rparr>)"
    and base': "last_sim_time (demo\<lparr>sim_time := Some (1 / 2)\<rparr>) = Some 1"
    by (simp_all add: demo_def)
  have "update_odometry (demo\<lparr>sim_time := Some (1 / 2)\<rparr>) = Inr (demo\<lparr>sim_time := Some (1 / 2)\<rparr>, [])"
    using baseline_never_decreases [OF period' base', of "[]" "1 / 2"] by simp
  moreover have "last_sim_time (node_after (update_odometry demo)) = Some 2 \<and>
      1 + integration_period demo \<le> 2"
    using baseline_never_decreases [OF period base, of "[]" 2] by (simp add: demo_def)
  ultimately show ?thesis using run period base by (simp add: demo_def)
qed

end
